theory Spec2Isabelle
  imports Complex_Main "HOL-Library.Word"
begin

unbundle bit_operations_syntax

section \<open>MAX31855 thermocouple converter driver\<close>

text \<open>
  A shallow embedding of the Arduino driver class \<open>MAX31855\<close>: the frame acquisition
  \<open>readRawData\<close> (hardware SPI and bit-banged SPI) and the four decoding operations
  \<open>detectThermocouple\<close>, \<open>getChipID\<close>, \<open>getTemperature\<close> and
  \<open>getColdJunctionTemperature\<close>.

  Machine types: \<open>int32_t\<close> is \<open>32 word\<close> (read as two's complement with \<open>sint\<close>),
  \<open>uint16_t\<close> is \<open>16 word\<close>, \<open>uint8_t\<close> is \<open>8 word\<close>. The C operator \<open><<\<close> is
  \<open>push_bit\<close>; \<open>>>\<close> on the signed \<open>int32_t\<close> is the arithmetic shift
  \<open>signed_drop_bit\<close>, as every compiler of the supported boards implements it.

  The \<open>float\<close> results are modelled as \<open>real\<close>. Every value the driver computes is an
  integer of absolute value at most \<open>8192\<close> multiplied by \<open>0.25\<close> or \<open>0.0625\<close>, or the
  constant \<open>2000\<close>; each of these is a binary32 number, and the product of such an integer
  with a power of two is exact, so that no rounding takes place.
\<close>

subsection \<open>Constants of MAX31855.h\<close>

definition MAX31855_CONVERSION_TIME :: nat where
  "MAX31855_CONVERSION_TIME = 100"

definition MAX31855_THERMOCOUPLE_RESOLUTION :: real where
  "MAX31855_THERMOCOUPLE_RESOLUTION = 0.25"

definition MAX31855_COLD_JUNCTION_RESOLUTION :: real where
  "MAX31855_COLD_JUNCTION_RESOLUTION = 0.0625"

definition MAX31855_ID :: "16 word" where
  "MAX31855_ID = 31855"

definition MAX31855_FORCE_READ_DATA :: "32 word" where
  "MAX31855_FORCE_READ_DATA = 7"

definition MAX31855_ERROR :: real where
  "MAX31855_ERROR = 2000"

definition MAX31855_THERMOCOUPLE_OK :: "8 word" where
  "MAX31855_THERMOCOUPLE_OK = 0"

definition MAX31855_THERMOCOUPLE_SHORT_TO_VCC :: "8 word" where
  "MAX31855_THERMOCOUPLE_SHORT_TO_VCC = 1"

definition MAX31855_THERMOCOUPLE_SHORT_TO_GND :: "8 word" where
  "MAX31855_THERMOCOUPLE_SHORT_TO_GND = 2"

definition MAX31855_THERMOCOUPLE_NOT_CONNECTED :: "8 word" where
  "MAX31855_THERMOCOUPLE_NOT_CONNECTED = 3"

definition MAX31855_THERMOCOUPLE_UNKNOWN :: "8 word" where
  "MAX31855_THERMOCOUPLE_UNKNOWN = 4"

subsection \<open>The driver object\<close>

text \<open>
  The private fields of class \<open>MAX31855\<close> (\<open>_useHardwareSPI\<close>, \<open>_cs\<close>, \<open>_so\<close>,
  \<open>_sck\<close>) and its two constructors.
\<close>

record MAX31855 =
  useHardwareSPI :: bool
  cs :: "8 word"
  so :: "8 word"
  sck :: "8 word"

definition MAX31855_sw :: "8 word \<Rightarrow> 8 word \<Rightarrow> 8 word \<Rightarrow> MAX31855" where
  "MAX31855_sw c s k = \<lparr>useHardwareSPI = False, cs = c, so = s, sck = k\<rparr>"

definition MAX31855_hw :: "8 word \<Rightarrow> MAX31855" where
  "MAX31855_hw c = \<lparr>useHardwareSPI = True, cs = c, so = 0, sck = 0\<rparr>"

subsection \<open>The board and the three wires to the chip\<close>

text \<open>
  The state the driver acts on. The pins named by the constructor are taken to be the ones
  wired to the chip, so a write to \<open>_cs\<close> or \<open>_sck\<close> drives the chip's CS or SCK line
  and a read of \<open>_so\<close> samples its SO line. The chip is read-only: all it does is present
  one level on SO per clock period. \<open>so_line k\<close> is the level during the \<open>k\<close>-th clock
  period since power-up, and \<open>clocks\<close> counts the falling edges of SCK so far.
\<close>

record wires =
  so_line :: "nat \<Rightarrow> bool"
  clocks :: nat
  cs_level :: bool
  sck_level :: bool
  elapsed :: nat
  spi_claimed :: bool

definition digitalWrite_cs :: "bool \<Rightarrow> wires \<Rightarrow> wires" where
  "digitalWrite_cs lvl w = w\<lparr>cs_level := lvl\<rparr>"

definition digitalWrite_sck :: "bool \<Rightarrow> wires \<Rightarrow> wires" where
  "digitalWrite_sck lvl w =
     w\<lparr>clocks := (if sck_level w \<and> \<not> lvl then Suc (clocks w) else clocks w),
       sck_level := lvl\<rparr>"

text \<open>\<open>digitalRead\<close> returns the \<open>int\<close> \<open>HIGH\<close> (1) or \<open>LOW\<close> (0).\<close>

definition digitalRead_so :: "wires \<Rightarrow> 32 word" where
  "digitalRead_so w = (if so_line w (clocks w) then 1 else 0)"

definition delay :: "nat \<Rightarrow> wires \<Rightarrow> wires" where
  "delay ms w = w\<lparr>elapsed := elapsed w + ms\<rparr>"

definition SPI_beginTransaction :: "wires \<Rightarrow> wires" where
  "SPI_beginTransaction w = w\<lparr>spi_claimed := True\<rparr>"

definition SPI_endTransaction :: "wires \<Rightarrow> wires" where
  "SPI_endTransaction w = w\<lparr>spi_claimed := False\<rparr>"

text \<open>
  Modelled from the spec: \<open>SPI.transfer16\<close> belongs to the Arduino core, not to this
  library. Under \<open>SPISettings(5000000UL, MSBFIRST, SPI_MODE0)\<close> the peripheral issues 16
  clock periods and shifts the level sampled on the data line into a 16-bit register, most
  significant bit first. \<open>spi_shift n\<close> is \<open>n\<close> such periods.
\<close>

fun spi_shift :: "nat \<Rightarrow> 16 word \<Rightarrow> wires \<Rightarrow> 16 word \<times> wires" where
  "spi_shift 0 reg w = (reg, w)"
| "spi_shift (Suc n) reg w =
     spi_shift n (push_bit 1 reg OR (if so_line w (clocks w) then 1 else 0))
       (w\<lparr>clocks := Suc (clocks w)\<rparr>)"

definition SPI_transfer16 :: "16 word \<Rightarrow> wires \<Rightarrow> 16 word \<times> wires" where
  "SPI_transfer16 out w = spi_shift 16 0 w"

text \<open>The macro \<open>bitRead(value, bit)\<close> of Arduino.h: \<open>(((value) >> (bit)) & 0x01)\<close>.\<close>

definition bitRead :: "32 word \<Rightarrow> nat \<Rightarrow> 32 word" where
  "bitRead v b = signed_drop_bit b v AND 1"

subsection \<open>readRawData\<close>

text \<open>
  The two loops of \<open>readRawData\<close>, by the number of iterations still to run:
  \<open>for (i = 0; i < 2; i++) rawData = (rawData << 16) | SPI.transfer16(0x0000)\<close> and
  \<open>for (i = 0; i < 32; i++) { SCK high; rawData = (rawData << 1) | digitalRead(_so); SCK low }\<close>.
\<close>

fun hw_loop :: "nat \<Rightarrow> 32 word \<Rightarrow> wires \<Rightarrow> 32 word \<times> wires" where
  "hw_loop 0 rawData w = (rawData, w)"
| "hw_loop (Suc n) rawData w =
     (let (t, w1) = SPI_transfer16 0 w
      in hw_loop n (push_bit 16 rawData OR ucast t) w1)"

fun sw_loop :: "nat \<Rightarrow> 32 word \<Rightarrow> wires \<Rightarrow> 32 word \<times> wires" where
  "sw_loop 0 rawData w = (rawData, w)"
| "sw_loop (Suc n) rawData w =
     (let w1 = digitalWrite_sck True w;
          rawData1 = push_bit 1 rawData OR digitalRead_so w1;
          w2 = digitalWrite_sck False w1
      in sw_loop n rawData1 w2)"

definition readRawData :: "MAX31855 \<Rightarrow> wires \<Rightarrow> 32 word \<times> wires" where
  "readRawData dev w =
     (let w1 = digitalWrite_cs False w;
          w2 = delay 1 w1;
          w3 = digitalWrite_cs True w2;
          w4 = delay MAX31855_CONVERSION_TIME w3;
          w5 = digitalWrite_cs False w4;
          (rawData, w6) =
            (if useHardwareSPI dev then hw_loop 2 0 (SPI_beginTransaction w5)
             else sw_loop 32 0 w5);
          w7 = digitalWrite_cs True w6;
          w8 = (if useHardwareSPI dev then SPI_endTransaction w7 else w7)
      in (rawData, w8))"

subsection \<open>The decoding operations\<close>

definition detectThermocouple :: "MAX31855 \<Rightarrow> 32 word \<Rightarrow> wires \<Rightarrow> 8 word \<times> wires" where
  "detectThermocouple dev rawValue w =
     (let (rawValue, w) =
            (if rawValue = MAX31855_FORCE_READ_DATA then readRawData dev w else (rawValue, w))
      in if bitRead rawValue 16 = 1 then
           (if bitRead rawValue 2 = 1 then (MAX31855_THERMOCOUPLE_SHORT_TO_VCC, w)
            else if bitRead rawValue 1 = 1 then (MAX31855_THERMOCOUPLE_SHORT_TO_GND, w)
            else if bitRead rawValue 0 = 1 then (MAX31855_THERMOCOUPLE_NOT_CONNECTED, w)
            else (MAX31855_THERMOCOUPLE_UNKNOWN, w))
         else (MAX31855_THERMOCOUPLE_OK, w))"

definition getChipID :: "MAX31855 \<Rightarrow> 32 word \<Rightarrow> wires \<Rightarrow> 16 word \<times> wires" where
  "getChipID dev rawValue w =
     (let (rawValue, w) =
            (if rawValue = MAX31855_FORCE_READ_DATA then readRawData dev w else (rawValue, w))
      in if bitRead rawValue 17 = 0 \<and> bitRead rawValue 3 = 0 then (MAX31855_ID, w)
         else (0, w))"

text \<open>
  The condition \<open>detectThermocouple(rawValue) != OK || getChipID(rawValue) != ID\<close>
  short-circuits: \<open>getChipID\<close> is called only when the first test is false.
\<close>

definition getTemperature :: "MAX31855 \<Rightarrow> 32 word \<Rightarrow> wires \<Rightarrow> real \<times> wires" where
  "getTemperature dev rawValue w =
     (let (rawValue, w) =
            (if rawValue = MAX31855_FORCE_READ_DATA then readRawData dev w else (rawValue, w));
          (fault, w) = detectThermocouple dev rawValue w
      in if fault \<noteq> MAX31855_THERMOCOUPLE_OK then (MAX31855_ERROR, w)
         else
           (let (chip, w) = getChipID dev rawValue w
            in if chip \<noteq> MAX31855_ID then (MAX31855_ERROR, w)
               else
                 (let rawValue = signed_drop_bit 18 rawValue
                  in (real_of_int (sint rawValue) * MAX31855_THERMOCOUPLE_RESOLUTION, w))))"

definition getColdJunctionTemperature :: "MAX31855 \<Rightarrow> 32 word \<Rightarrow> wires \<Rightarrow> real \<times> wires" where
  "getColdJunctionTemperature dev rawValue w =
     (let (rawValue, w) =
            (if rawValue = MAX31855_FORCE_READ_DATA then readRawData dev w else (rawValue, w));
          (chip, w) = getChipID dev rawValue w
      in if chip \<noteq> MAX31855_ID then (MAX31855_ERROR, w)
         else
           (let rawValue = rawValue AND 0x0000FFFF;
                rawValue = signed_drop_bit 4 rawValue
            in (real_of_int (sint rawValue) * MAX31855_COLD_JUNCTION_RESOLUTION, w)))"

subsection \<open>The frame layout in the words of the specification\<close>

text \<open>
  The specification describes the two temperature fields of a frame independently of the
  code: bits 31..18 read as a two's-complement 14-bit integer, and the lower 16 bits
  shifted right by 4 and read as a two's-complement 12-bit integer. These definitions
  follow that wording and are only used to compare the code with it.
\<close>

definition spec_thermocouple_count :: "32 word \<Rightarrow> int" where
  "spec_thermocouple_count frame = sint (ucast (drop_bit 18 frame) :: 14 word)"

definition spec_cold_junction_count :: "32 word \<Rightarrow> int" where
  "spec_cold_junction_count frame = sint (ucast (drop_bit 4 (frame AND 0xFFFF)) :: 12 word)"

text \<open>
  The synthetic frame of the round-trip tests: the count \<open>k\<close> in two's complement in bits
  31..18, and the 18 bits below taken from \<open>rest\<close>.
\<close>

definition spec_encode_thermocouple :: "int \<Rightarrow> 32 word \<Rightarrow> 32 word" where
  "spec_encode_thermocouple k rest = push_bit 18 (word_of_int k) OR take_bit 18 rest"

subsection \<open>Concrete drivers and boards\<close>

text \<open>
  The objects of the example sketches, \<open>MAX31855 myMAX31855(3, 4, 7)\<close> and
  \<open>MAX31855 myMAX31855(3)\<close>, and a board at power-up whose chip presents the levels
  \<open>line\<close> on SO.
\<close>

definition myMAX31855 :: MAX31855 where
  "myMAX31855 = MAX31855_sw 3 4 7"

definition myMAX31855_01 :: MAX31855 where
  "myMAX31855_01 = MAX31855_hw 3"

definition power_up :: "(nat \<Rightarrow> bool) \<Rightarrow> wires" where
  "power_up line =
     \<lparr>so_line = line, clocks = 0, cs_level = True, sck_level = False, elapsed = 0,
      spi_claimed = False\<rparr>"

text \<open>A chip that never drives SO high.\<close>

definition silent :: "nat \<Rightarrow> bool" where
  "silent k = False"

text \<open>
  Two chips whose first 32 levels spell the frame \<open>7\<close> (SO goes high at the 29th clock
  period): one keeps SO high from then on, the other releases it after the first frame.
\<close>

definition seven_then_high :: "nat \<Rightarrow> bool" where
  "seven_then_high k = (29 \<le> k)"

definition seven_then_silent :: "nat \<Rightarrow> bool" where
  "seven_then_silent k = (29 \<le> k \<and> k < 32)"

section \<open>Auxiliary facts\<close>

lemmas max31855_consts =
  MAX31855_CONVERSION_TIME_def MAX31855_THERMOCOUPLE_RESOLUTION_def
  MAX31855_COLD_JUNCTION_RESOLUTION_def MAX31855_ID_def MAX31855_FORCE_READ_DATA_def
  MAX31855_ERROR_def MAX31855_THERMOCOUPLE_OK_def MAX31855_THERMOCOUPLE_SHORT_TO_VCC_def
  MAX31855_THERMOCOUPLE_SHORT_TO_GND_def MAX31855_THERMOCOUPLE_NOT_CONNECTED_def
  MAX31855_THERMOCOUPLE_UNKNOWN_def

subsection \<open>Reading single bits\<close>

lemma bitRead_eq: "b < 32 \<Longrightarrow> bitRead v b = (if bit v b then 1 else 0)"
  unfolding bitRead_def
  by (rule bit_word_eqI) (auto simp: bit_simps intro!: gr0I)

lemma bitRead_one_iff: "b < 32 \<Longrightarrow> bitRead v b = 1 \<longleftrightarrow> bit v b"
  by (simp add: bitRead_eq)

lemma bitRead_zero_iff: "b < 32 \<Longrightarrow> bitRead v b = 0 \<longleftrightarrow> \<not> bit v b"
  by (simp add: bitRead_eq)

subsection \<open>The two shifts that isolate the temperature fields\<close>

lemma thermo_word:
  "signed_drop_bit 18 (f :: 32 word) = scast (ucast (drop_bit 18 f) :: 14 word)"
  by (rule bit_word_eqI) (auto simp: bit_simps)

lemma thermo_field:
  "sint (signed_drop_bit 18 (f :: 32 word)) = sint (ucast (drop_bit 18 f) :: 14 word)"
  by (simp add: thermo_word sint_up_scast is_up)

lemma mask16: "(0xFFFF :: 32 word) = mask 16"
  by (simp add: mask_eq_exp_minus_1)

lemma cj_word:
  "signed_drop_bit 4 ((f :: 32 word) AND 0xFFFF) = ucast (ucast (drop_bit 4 f) :: 12 word)"
  unfolding mask16
  by (rule bit_word_eqI) (auto simp: bit_simps)

lemma sint_ucast12: "sint (ucast (x :: 12 word) :: 32 word) = uint x"
proof -
  have "uint x < 2 ^ 12" using uint_bounded [of x] by simp
  then have b: "uint x < 2 ^ 31" by simp
  have nn: "- (2 ^ 31) \<le> uint x"
    by (rule order_trans [of _ 0]) simp_all
  have "sint (ucast x :: 32 word) = signed_take_bit 31 (uint (ucast x :: 32 word))"
    by (simp add: sint_uint)
  also have "uint (ucast x :: 32 word) = uint x"
    by (simp add: uint_up_ucast is_up)
  also have "signed_take_bit 31 (uint x) = uint x"
    using nn b by (rule signed_take_bit_int_eq_self)
  finally show ?thesis .
qed

lemma cj_count:
  "sint (signed_drop_bit 4 ((f :: 32 word) AND 0xFFFF)) = uint (ucast (drop_bit 4 f) :: 12 word)"
  by (simp only: cj_word sint_ucast12)

subsection \<open>The operations on a frame supplied by the caller\<close>

lemma detectThermocouple_cached:
  "rawValue \<noteq> MAX31855_FORCE_READ_DATA \<Longrightarrow>
   detectThermocouple dev rawValue w =
     ((if bit rawValue 16 then
         (if bit rawValue 2 then MAX31855_THERMOCOUPLE_SHORT_TO_VCC
          else if bit rawValue 1 then MAX31855_THERMOCOUPLE_SHORT_TO_GND
          else if bit rawValue 0 then MAX31855_THERMOCOUPLE_NOT_CONNECTED
          else MAX31855_THERMOCOUPLE_UNKNOWN)
       else MAX31855_THERMOCOUPLE_OK), w)"
  by (simp add: detectThermocouple_def bitRead_one_iff)

lemma getChipID_cached:
  "rawValue \<noteq> MAX31855_FORCE_READ_DATA \<Longrightarrow>
   getChipID dev rawValue w =
     ((if \<not> bit rawValue 17 \<and> \<not> bit rawValue 3 then MAX31855_ID else 0), w)"
  by (simp add: getChipID_def bitRead_zero_iff)

lemma getTemperature_cached:
  "rawValue \<noteq> MAX31855_FORCE_READ_DATA \<Longrightarrow>
   getTemperature dev rawValue w =
     ((if bit rawValue 16 \<or> bit rawValue 17 \<or> bit rawValue 3 then MAX31855_ERROR
       else real_of_int (sint (ucast (drop_bit 18 rawValue) :: 14 word))
              * MAX31855_THERMOCOUPLE_RESOLUTION), w)"
  by (simp add: getTemperature_def detectThermocouple_cached getChipID_cached
      max31855_consts thermo_field del: of_int_sint of_int_uint)

lemma getColdJunctionTemperature_cached:
  "rawValue \<noteq> MAX31855_FORCE_READ_DATA \<Longrightarrow>
   getColdJunctionTemperature dev rawValue w =
     ((if bit rawValue 17 \<or> bit rawValue 3 then MAX31855_ERROR
       else real_of_int (uint (ucast (drop_bit 4 rawValue) :: 12 word))
              * MAX31855_COLD_JUNCTION_RESOLUTION), w)"
  by (simp add: getColdJunctionTemperature_def getChipID_cached max31855_consts cj_count
      del: of_int_sint of_int_uint)

subsection \<open>Ranges of the decoded counts\<close>

lemma encode_field:
  "ucast (drop_bit 18 (spec_encode_thermocouple k rest)) = (word_of_int k :: 14 word)"
  unfolding spec_encode_thermocouple_def
  by (rule bit_word_eqI) (auto simp: bit_simps)

lemma encode_count:
  "- 8192 \<le> k \<Longrightarrow> k < 8192 \<Longrightarrow> spec_thermocouple_count (spec_encode_thermocouple k rest) = k"
  by (simp add: spec_thermocouple_count_def encode_field sint_sbintrunc' signed_take_bit_int_eq_self)

lemma thermo_value_error_iff: "real_of_int k * 0.25 = 2000 \<longleftrightarrow> k = 8000"
proof -
  have "real_of_int k * 0.25 = 2000 \<longleftrightarrow> real_of_int k = real_of_int 8000" by auto
  also have "\<dots> \<longleftrightarrow> k = 8000" by (simp only: of_int_eq_iff)
  finally show ?thesis .
qed

lemma cj_count_lt: "uint (x :: 12 word) < 4096"
  using uint_bounded [of x] by simp

lemma cj_count_ne: "uint (x :: 12 word) \<noteq> 32000"
  using cj_count_lt [of x] by simp

lemma cj_value_bounds:
  "0 \<le> real_of_int (uint (x :: 12 word)) * 0.0625 \<and>
   real_of_int (uint x) * 0.0625 \<le> 255.9375"
proof -
  have "uint x \<le> 4095" using cj_count_lt [of x] by simp
  then have "real_of_int (uint x) \<le> 4095" by linarith
  moreover have "0 \<le> real_of_int (uint x)" by (simp del: of_int_uint)
  ultimately show ?thesis by (simp del: of_int_uint)
qed

lemma clear_bits_gen:
  "bit ((frame :: 32 word) AND (NOT (push_bit m 1) AND NOT (mask k))) n
     = (bit frame n \<and> n \<noteq> m \<and> k \<le> n)"
  by (auto simp: bit_simps dest: bit_imp_le_length)

lemma fault_mask_word: "(NOT 0x10007 :: 32 word) = NOT (push_bit 16 1) AND NOT (mask 3)"
  by (simp add: mask_eq_exp_minus_1)

lemma clear_faults_bits:
  "bit ((frame :: 32 word) AND NOT 0x10007) n = (bit frame n \<and> n \<noteq> 16 \<and> 3 \<le> n)"
  by (subst fault_mask_word) (rule clear_bits_gen)

lemma cj_field_cong:
  assumes "\<And>n. 4 \<le> n \<Longrightarrow> n < 16 \<Longrightarrow> bit (g :: 32 word) n = bit (f :: 32 word) n"
  shows "(ucast (drop_bit 4 g) :: 12 word) = ucast (drop_bit 4 f)"
  by (rule bit_word_eqI) (simp add: bit_ucast_iff bit_drop_bit_eq assms)

lemma getColdJunctionTemperature_cong:
  assumes "g \<noteq> MAX31855_FORCE_READ_DATA" "f \<noteq> MAX31855_FORCE_READ_DATA"
    and "\<And>n. 3 \<le> n \<Longrightarrow> n \<noteq> 16 \<Longrightarrow> bit g n = bit f n"
  shows "getColdJunctionTemperature dev g w = getColdJunctionTemperature dev f w"
proof -
  have "(ucast (drop_bit 4 g) :: 12 word) = ucast (drop_bit 4 f)"
    by (rule cj_field_cong) (simp add: assms(3))
  moreover have "bit g 17 = bit f 17" "bit g 3 = bit f 3"
    by (simp_all add: assms(3))
  ultimately show ?thesis
    by (simp add: getColdJunctionTemperature_cached assms(1,2) del: of_int_sint of_int_uint)
qed

lemma clear_faults_not_sentinel:
  "(frame :: 32 word) AND NOT 0x10007 \<noteq> MAX31855_FORCE_READ_DATA"
proof
  assume eq: "frame AND NOT 0x10007 = MAX31855_FORCE_READ_DATA"
  have "bit (frame AND NOT 0x10007) 0 = bit MAX31855_FORCE_READ_DATA 0"
    by (simp only: eq)
  moreover have "\<not> bit (frame AND NOT 0x10007) 0"
    by (simp only: clear_faults_bits) simp
  moreover have "bit MAX31855_FORCE_READ_DATA 0"
    by (simp add: MAX31855_FORCE_READ_DATA_def)
  ultimately show False by simp
qed

lemma getColdJunctionTemperature_ignores_faults:
  assumes "frame \<noteq> MAX31855_FORCE_READ_DATA"
  shows "getColdJunctionTemperature dev (frame AND NOT 0x10007) w =
         getColdJunctionTemperature dev frame w"
proof (rule getColdJunctionTemperature_cong)
  show "frame AND NOT 0x10007 \<noteq> MAX31855_FORCE_READ_DATA"
    by (rule clear_faults_not_sentinel)
  show "frame \<noteq> MAX31855_FORCE_READ_DATA" by (rule assms)
  show "bit (frame AND NOT 0x10007) n = bit frame n" if "3 \<le> n" "n \<noteq> 16" for n
    using that by (simp only: clear_faults_bits) simp
qed

subsection \<open>The two acquisition loops\<close>

lemma shift_in_bit:
  "bit (push_bit m (r :: 'a::len word) OR (if b then 1 else 0)) j \<longleftrightarrow>
     j < LENGTH('a) \<and> ((m \<le> j \<and> bit r (j - m)) \<or> (j = 0 \<and> b))"
  by (auto simp: bit_simps dest: bit_imp_le_length)

lemma spi_shift_wires: "snd (spi_shift n reg w) = w\<lparr>clocks := clocks w + n\<rparr>"
  by (induction n arbitrary: reg w) simp_all

lemma spi_shift_bit:
  "bit (fst (spi_shift n reg w)) j \<longleftrightarrow>
     j < 16 \<and> (if j < n then so_line w (clocks w + (n - 1 - j)) else bit reg (j - n))"
proof (induction n arbitrary: reg w)
  case 0
  then show ?case by (auto dest: bit_imp_le_length)
next
  case (Suc n)
  let ?b = "so_line w (clocks w)"
  let ?reg = "push_bit 1 reg OR (if ?b then 1 else 0)"
  let ?w = "w\<lparr>clocks := Suc (clocks w)\<rparr>"
  have "bit (fst (spi_shift (Suc n) reg w)) j = bit (fst (spi_shift n ?reg ?w)) j"
    by (simp only: spi_shift.simps)
  also have "\<dots> = (j < 16 \<and>
      (if j < n then so_line ?w (clocks ?w + (n - 1 - j)) else bit ?reg (j - n)))"
    by (rule Suc.IH)
  also have "\<dots> = (j < 16 \<and>
      (if j < Suc n then so_line w (clocks w + (Suc n - 1 - j)) else bit reg (j - Suc n)))"
  proof (cases "j < n")
    case True
    then have "Suc (clocks w) + (n - 1 - j) = clocks w + (Suc n - 1 - j)" by simp
    with True show ?thesis by simp
  next
    case False
    then show ?thesis
      by (simp only: shift_in_bit) (auto simp: not_less le_Suc_eq)
  qed
  finally show ?case .
qed

lemma sw_step:
  "digitalWrite_sck False (digitalWrite_sck True w) = w\<lparr>clocks := Suc (clocks w), sck_level := False\<rparr>"
  "digitalRead_so (digitalWrite_sck True w) = (if so_line w (clocks w) then 1 else 0)"
  by (simp_all add: digitalWrite_sck_def digitalRead_so_def)

lemma sw_loop_Suc:
  "sw_loop (Suc n) raw w =
     sw_loop n (push_bit 1 raw OR (if so_line w (clocks w) then 1 else 0))
       (w\<lparr>clocks := Suc (clocks w), sck_level := False\<rparr>)"
  by (simp only: sw_loop.simps Let_def sw_step)

lemma sw_loop_wires:
  "snd (sw_loop n raw w) =
     (if n = 0 then w else w\<lparr>clocks := clocks w + n, sck_level := False\<rparr>)"
  by (induction n arbitrary: raw w) (simp_all only: sw_loop_Suc sw_loop.simps, simp_all)

lemma sw_loop_bit:
  "bit (fst (sw_loop n raw w)) j \<longleftrightarrow>
     j < 32 \<and> (if j < n then so_line w (clocks w + (n - 1 - j)) else bit raw (j - n))"
proof (induction n arbitrary: raw w)
  case 0
  then show ?case by (auto dest: bit_imp_le_length)
next
  case (Suc n)
  let ?b = "so_line w (clocks w)"
  let ?raw = "push_bit 1 raw OR (if ?b then 1 else 0)"
  let ?w = "w\<lparr>clocks := Suc (clocks w), sck_level := False\<rparr>"
  have "bit (fst (sw_loop (Suc n) raw w)) j = bit (fst (sw_loop n ?raw ?w)) j"
    by (simp only: sw_loop_Suc)
  also have "\<dots> = (j < 32 \<and>
      (if j < n then so_line ?w (clocks ?w + (n - 1 - j)) else bit ?raw (j - n)))"
    by (rule Suc.IH)
  also have "\<dots> = (j < 32 \<and>
      (if j < Suc n then so_line w (clocks w + (Suc n - 1 - j)) else bit raw (j - Suc n)))"
  proof (cases "j < n")
    case True
    then have "Suc (clocks w) + (n - 1 - j) = clocks w + (Suc n - 1 - j)" by simp
    with True show ?thesis by simp
  next
    case False
    then show ?thesis
      by (simp only: shift_in_bit) (auto simp: not_less le_Suc_eq)
  qed
  finally show ?case .
qed


lemma hw_loop_two:
  "hw_loop 2 0 w =
     (let r1 = spi_shift 16 0 w; r2 = spi_shift 16 0 (snd r1)
      in (push_bit 16 (push_bit 16 0 OR ucast (fst r1)) OR ucast (fst r2), snd r2))"
  by (simp only: numeral_2_eq_2 hw_loop.simps SPI_transfer16_def Let_def split_beta)

lemma hw_loop_two_bit:
  "bit (fst (hw_loop 2 0 w)) j \<longleftrightarrow> j < 32 \<and> so_line w (clocks w + (31 - j))"
proof (cases "j < 16")
  case True
  then have "clocks w + 16 + (16 - 1 - j) = clocks w + (31 - j)" by simp
  with True show ?thesis
    by (simp add: hw_loop_two Let_def bit_simps spi_shift_bit spi_shift_wires)
next
  case False
  then have "16 - 1 - (j - 16) = 31 - j" by simp
  with False show ?thesis
    by (auto simp: hw_loop_two Let_def bit_simps spi_shift_bit spi_shift_wires)
qed

lemma sw_loop_all_bit:
  "bit (fst (sw_loop 32 0 w)) j \<longleftrightarrow> j < 32 \<and> so_line w (clocks w + (31 - j))"
  by (auto simp: sw_loop_bit)

lemma readRawData_bit:
  "bit (fst (readRawData dev w)) j \<longleftrightarrow> j < 32 \<and> so_line w (clocks w + (31 - j))"
  by (simp add: readRawData_def Let_def split_beta hw_loop_two_bit sw_loop_all_bit
      digitalWrite_cs_def delay_def SPI_beginTransaction_def)

lemma readRawData_wires_sw:
  "\<not> useHardwareSPI dev \<Longrightarrow>
   snd (readRawData dev w) =
     w\<lparr>clocks := clocks w + 32, cs_level := True, sck_level := False,
       elapsed := elapsed w + 101\<rparr>"
  by (simp add: readRawData_def Let_def split_beta sw_loop_wires
      digitalWrite_cs_def delay_def MAX31855_CONVERSION_TIME_def)

lemma readRawData_wires_hw:
  "useHardwareSPI dev \<Longrightarrow>
   snd (readRawData dev w) =
     w\<lparr>clocks := clocks w + 32, cs_level := True,
       elapsed := elapsed w + 101, spi_claimed := False\<rparr>"
  by (simp add: readRawData_def Let_def split_beta hw_loop_two spi_shift_wires
      digitalWrite_cs_def delay_def MAX31855_CONVERSION_TIME_def
      SPI_beginTransaction_def SPI_endTransaction_def)

lemma readRawData_clocks: "clocks (snd (readRawData dev w)) = clocks w + 32"
  by (cases "useHardwareSPI dev") (simp_all add: readRawData_wires_hw readRawData_wires_sw)

lemma readRawData_so_line: "so_line (snd (readRawData dev w)) = so_line w"
  by (cases "useHardwareSPI dev") (simp_all add: readRawData_wires_hw readRawData_wires_sw)

lemma power_up_sel: "so_line (power_up line) = line" "clocks (power_up line) = 0"
  by (simp_all add: power_up_def)

lemma mask3: "(7 :: 32 word) = mask 3"
  by (simp add: mask_eq_exp_minus_1)

lemma first_frame_high:
  "fst (readRawData dev (power_up seven_then_high)) = MAX31855_FORCE_READ_DATA"
  unfolding MAX31855_FORCE_READ_DATA_def mask3
  by (rule bit_word_eqI)
     (auto simp: readRawData_bit bit_mask_iff power_up_def seven_then_high_def)

lemma first_frame_silent:
  "fst (readRawData dev (power_up seven_then_silent)) = MAX31855_FORCE_READ_DATA"
  unfolding MAX31855_FORCE_READ_DATA_def mask3
  by (rule bit_word_eqI)
     (auto simp: readRawData_bit bit_mask_iff power_up_def seven_then_silent_def)

lemma later_frame_high:
  "32 \<le> clocks w \<Longrightarrow> so_line w = seven_then_high \<Longrightarrow> fst (readRawData dev w) = - 1"
  by (rule bit_word_eqI) (auto simp: readRawData_bit seven_then_high_def)

lemma later_frame_silent:
  "32 \<le> clocks w \<Longrightarrow> so_line w = seven_then_silent \<Longrightarrow> fst (readRawData dev w) = 0"
  by (rule bit_word_eqI) (auto simp: readRawData_bit seven_then_silent_def)

lemma getTemperature_forced:
  "getTemperature dev MAX31855_FORCE_READ_DATA w =
     (let f = fst (readRawData dev w); w1 = snd (readRawData dev w);
          r = detectThermocouple dev f w1
      in if fst r \<noteq> MAX31855_THERMOCOUPLE_OK then (MAX31855_ERROR, snd r)
         else
           (let c = getChipID dev f (snd r)
            in if fst c \<noteq> MAX31855_ID then (MAX31855_ERROR, snd c)
               else (real_of_int (sint (signed_drop_bit 18 f)) * MAX31855_THERMOCOUPLE_RESOLUTION,
                     snd c)))"
  by (simp add: getTemperature_def Let_def split_beta del: of_int_sint)

lemma detectThermocouple_forced:
  "detectThermocouple dev MAX31855_FORCE_READ_DATA w =
     (let f = fst (readRawData dev w)
      in ((if bit f 16 then
             (if bit f 2 then MAX31855_THERMOCOUPLE_SHORT_TO_VCC
              else if bit f 1 then MAX31855_THERMOCOUPLE_SHORT_TO_GND
              else if bit f 0 then MAX31855_THERMOCOUPLE_NOT_CONNECTED
              else MAX31855_THERMOCOUPLE_UNKNOWN)
           else MAX31855_THERMOCOUPLE_OK), snd (readRawData dev w)))"
  by (simp add: detectThermocouple_def Let_def split_beta bitRead_one_iff)

lemma getChipID_forced:
  "getChipID dev MAX31855_FORCE_READ_DATA w =
     (let f = fst (readRawData dev w)
      in ((if \<not> bit f 17 \<and> \<not> bit f 3 then MAX31855_ID else 0), snd (readRawData dev w)))"
  by (simp add: getChipID_def Let_def split_beta bitRead_zero_iff)

lemma myMAX31855_sw: "\<not> useHardwareSPI myMAX31855"
  by (simp add: myMAX31855_def MAX31855_sw_def)


lemma myMAX31855_01_hw: "useHardwareSPI myMAX31855_01"
  by (simp add: myMAX31855_01_def MAX31855_hw_def)

lemma getColdJunctionTemperature_forced:
  "getColdJunctionTemperature dev MAX31855_FORCE_READ_DATA w =
     (let f = fst (readRawData dev w); w1 = snd (readRawData dev w);
          c = getChipID dev f w1
      in if fst c \<noteq> MAX31855_ID then (MAX31855_ERROR, snd c)
         else (real_of_int (sint (signed_drop_bit 4 (f AND 0xFFFF)))
                 * MAX31855_COLD_JUNCTION_RESOLUTION, snd c))"
  by (simp add: getColdJunctionTemperature_def Let_def split_beta del: of_int_sint)

subsection \<open>The cold-junction result on any supplied frame\<close>

text \<open>
  On a frame other than 7 the cold-junction result is 2000 exactly when an identity bit
  is set and is otherwise the unsigned count of bits 15..4 times 0.0625, whatever the
  fault bits 16, 2, 1 and 0 are. That count is the two's-complement reading of the field
  exactly when the sign bit 15 is clear.
\<close>

lemma sint_eq_uint_12:
  assumes "\<not> bit (x :: 12 word) 11"
  shows "sint x = uint x"
proof -
  have x: "take_bit 11 x = x"
  proof (rule bit_word_eqI)
    fix n assume "n < LENGTH(12)"
    then have "n < 11 \<or> n = 11" by auto
    then show "bit (take_bit 11 x) n = bit x n"
      using assms by (auto simp: bit_take_bit_iff)
  qed
  have "sint x = signed_take_bit 11 (uint x)"
    by (simp add: sint_uint)
  also have "\<dots> = take_bit 11 (uint x)"
    using assms by (intro signed_take_bit_eq_if_positive) (simp add: bit_uint_iff)
  also have "\<dots> = uint (take_bit 11 x)"
    by (simp only: unsigned_take_bit_eq)
  finally show ?thesis by (simp only: x)
qed

lemma cj_field_mask:
  "(ucast (drop_bit 4 ((frame :: 32 word) AND 0xFFFF)) :: 12 word) = ucast (drop_bit 4 frame)"
  unfolding mask16
  by (rule bit_word_eqI) (auto simp: bit_simps)

lemma spec_cold_junction_count_positive:
  assumes "\<not> bit frame 15"
  shows "spec_cold_junction_count frame = uint (ucast (drop_bit 4 frame) :: 12 word)"
proof -
  have "\<not> bit (ucast (drop_bit 4 frame) :: 12 word) 11"
    using assms by (simp add: bit_ucast_iff bit_drop_bit_eq)
  then show ?thesis
    unfolding spec_cold_junction_count_def cj_field_mask by (rule sint_eq_uint_12)
qed

lemma getColdJunctionTemperature_any_faults:
  assumes "frame \<noteq> MAX31855_FORCE_READ_DATA"
  shows "(fst (getColdJunctionTemperature dev frame w) = 2000 \<longleftrightarrow> bit frame 17 \<or> bit frame 3) \<and>
         (\<not> bit frame 17 \<and> \<not> bit frame 3 \<longrightarrow>
            getColdJunctionTemperature dev frame w =
              (real_of_int (uint (ucast (drop_bit 4 frame) :: 12 word)) * 0.0625, w) \<and>
            getColdJunctionTemperature dev frame w =
              getColdJunctionTemperature dev (frame AND NOT 0x10007) w) \<and>
         (\<not> bit frame 17 \<and> \<not> bit frame 3 \<and> \<not> bit frame 15 \<longrightarrow>
            getColdJunctionTemperature dev frame w =
              (real_of_int (spec_cold_junction_count frame) * 0.0625, w))"
  using assms
  unfolding getColdJunctionTemperature_ignores_faults [OF assms]
  by (simp add: getColdJunctionTemperature_cached spec_cold_junction_count_positive
      max31855_consts cj_count_ne del: of_int_sint of_int_uint)

subsection \<open>The results as binary32 numbers\<close>

text \<open>
  Every result of the two temperature operations on a supplied frame is \<open>m / 16\<close> for an
  integer \<open>m\<close> of at most 16 bits. Such a value, and the product it comes from, is
  represented exactly by the 24-bit significand of a \<open>float\<close>, which is why \<open>real\<close>
  arithmetic describes the code.
\<close>

lemma thermo_count_range: "\<bar>sint (x :: 14 word)\<bar> \<le> 8192"
  using sint_ge [of x] sint_lt [of x] by simp

lemma getTemperature_grid:
  assumes "frame \<noteq> MAX31855_FORCE_READ_DATA"
  shows "\<exists>m :: int. \<bar>m\<bar> \<le> 32768 \<and> fst (getTemperature dev frame w) = real_of_int m / 16"
proof (cases "bit frame 16 \<or> bit frame 17 \<or> bit frame 3")
  case True
  then have "fst (getTemperature dev frame w) = real_of_int 32000 / 16"
    using assms by (simp add: getTemperature_cached MAX31855_ERROR_def)
  then show ?thesis by (intro exI [of _ 32000]) simp
next
  case False
  let ?k = "sint (ucast (drop_bit 18 frame) :: 14 word)"
  have "fst (getTemperature dev frame w) = real_of_int (4 * ?k) / 16"
    using assms False
    by (simp add: getTemperature_cached MAX31855_THERMOCOUPLE_RESOLUTION_def
        del: of_int_sint of_int_uint)
  moreover have "\<bar>4 * ?k\<bar> \<le> 32768"
    using thermo_count_range [of "ucast (drop_bit 18 frame)"] by simp
  ultimately show ?thesis by blast
qed

lemma getColdJunctionTemperature_grid:
  assumes "frame \<noteq> MAX31855_FORCE_READ_DATA"
  shows "\<exists>m :: int. \<bar>m\<bar> \<le> 32768 \<and>
           fst (getColdJunctionTemperature dev frame w) = real_of_int m / 16"
proof (cases "bit frame 17 \<or> bit frame 3")
  case True
  then have "fst (getColdJunctionTemperature dev frame w) = real_of_int 32000 / 16"
    using assms by (simp add: getColdJunctionTemperature_cached MAX31855_ERROR_def)
  then show ?thesis by (intro exI [of _ 32000]) simp
next
  case False
  let ?n = "uint (ucast (drop_bit 4 frame) :: 12 word)"
  have "fst (getColdJunctionTemperature dev frame w) = real_of_int ?n / 16"
    using assms False
    by (simp add: getColdJunctionTemperature_cached MAX31855_COLD_JUNCTION_RESOLUTION_def
        del: of_int_sint of_int_uint)
  moreover have "\<bar>?n\<bar> \<le> 32768"
    using cj_count_lt [of "ucast (drop_bit 4 frame)"] by simp
  ultimately show ?thesis by blast
qed

subsection \<open>Frames read from the example boards\<close>

lemma sentinel_bits:
  "\<not> bit MAX31855_FORCE_READ_DATA 16" "\<not> bit MAX31855_FORCE_READ_DATA 17"
  "\<not> bit MAX31855_FORCE_READ_DATA 3"
  by (simp_all add: MAX31855_FORCE_READ_DATA_def)

lemma first_frame_of_silent: "fst (readRawData dev (power_up silent)) = 0"
  by (rule bit_word_eqI) (simp add: readRawData_bit power_up_sel silent_def)

section \<open>Decoding a frame supplied by the caller\<close>

text \<open>
  C1. The claim: for a frame with identity bits 17 and 3 zero, other than 7,
  \<open>getColdJunctionTemperature\<close> returns the two's-complement 12-bit integer in bits 15..4
  times 0.0625, so that a frame with sign bit 15 set decodes to a negative temperature.
  The code masks with \<open>0x0000FFFF\<close> before the shift, which leaves bit 15 as an ordinary
  magnitude bit: the frame \<open>0x0000D800\<close>, whose field holds \<open>-640\<close> counts (-40 degrees,
  the lower end of the range the function documents), is returned as 216.
\<close>

theorem getColdJunctionTemperature_sign_bit_lost:
  "getColdJunctionTemperature dev 0xD800 w = (216, w) \<and>
   real_of_int (spec_cold_junction_count 0xD800) * MAX31855_COLD_JUNCTION_RESOLUTION = - 40"
  by (simp add: getColdJunctionTemperature_cached spec_cold_junction_count_def max31855_consts)

text \<open>
  C2. For every frame other than 7 with bits 17, 3 and 16 zero, \<open>getTemperature\<close>
  returns the two's-complement 14-bit integer in bits 31..18 times 0.25 and leaves the
  wires alone; hence a count \<open>k\<close> between -8192 and 8191 encoded into bits 31..18 is
  decoded to exactly \<open>k * 0.25\<close>.
\<close>

theorem getTemperature_signed_14_bit:
  assumes "frame \<noteq> MAX31855_FORCE_READ_DATA"
    and "\<not> bit frame 17" and "\<not> bit frame 3" and "\<not> bit frame 16"
  shows "getTemperature dev frame w = (real_of_int (spec_thermocouple_count frame) * 0.25, w) \<and>
         (\<forall>k rest. - 8192 \<le> k \<and> k < 8192 \<and> frame = spec_encode_thermocouple k rest \<longrightarrow>
            getTemperature dev frame w = (real_of_int k * 0.25, w))"
proof -
  have a: "getTemperature dev frame w = (real_of_int (spec_thermocouple_count frame) * 0.25, w)"
    using assms
    by (simp add: getTemperature_cached spec_thermocouple_count_def
        MAX31855_THERMOCOUPLE_RESOLUTION_def del: of_int_sint of_int_uint)
  show ?thesis
    using a by (auto simp: encode_count simp del: of_int_sint of_int_uint)
qed

text \<open>The two round trips of the specification: -40.00 (count -160) and 100.00 (count 400).\<close>

theorem getTemperature_signed_14_bit_witness:
  "spec_encode_thermocouple (- 160) 0 \<noteq> MAX31855_FORCE_READ_DATA \<and>
   \<not> bit (spec_encode_thermocouple (- 160) 0) 17 \<and>
   \<not> bit (spec_encode_thermocouple (- 160) 0) 3 \<and>
   \<not> bit (spec_encode_thermocouple (- 160) 0) 16 \<and>
   getTemperature myMAX31855 (spec_encode_thermocouple (- 160) 0) (power_up silent)
     = (- 40, power_up silent) \<and>
   spec_encode_thermocouple 400 0 \<noteq> MAX31855_FORCE_READ_DATA \<and>
   \<not> bit (spec_encode_thermocouple 400 0) 17 \<and>
   \<not> bit (spec_encode_thermocouple 400 0) 3 \<and>
   \<not> bit (spec_encode_thermocouple 400 0) 16 \<and>
   getTemperature myMAX31855 (spec_encode_thermocouple 400 0) (power_up silent)
     = (100, power_up silent)"
proof -
  let ?f = "spec_encode_thermocouple (- 160) 0" and ?g = "spec_encode_thermocouple 400 0"
  have f: "?f \<noteq> MAX31855_FORCE_READ_DATA" "\<not> bit ?f 17" "\<not> bit ?f 3" "\<not> bit ?f 16"
    by (simp_all add: spec_encode_thermocouple_def MAX31855_FORCE_READ_DATA_def)
  have g: "?g \<noteq> MAX31855_FORCE_READ_DATA" "\<not> bit ?g 17" "\<not> bit ?g 3" "\<not> bit ?g 16"
    by (simp_all add: spec_encode_thermocouple_def MAX31855_FORCE_READ_DATA_def)
  have "- 8192 \<le> (- 160 :: int) \<and> (- 160 :: int) < 8192 \<and> ?f = spec_encode_thermocouple (- 160) 0 \<longrightarrow>
        getTemperature myMAX31855 ?f (power_up silent) = (real_of_int (- 160) * 0.25, power_up silent)"
    using getTemperature_signed_14_bit [OF f, of myMAX31855 "power_up silent"] by blast
  then have "getTemperature myMAX31855 ?f (power_up silent) = (- 40, power_up silent)"
    by simp
  moreover
  have "- 8192 \<le> (400 :: int) \<and> (400 :: int) < 8192 \<and> ?g = spec_encode_thermocouple 400 0 \<longrightarrow>
        getTemperature myMAX31855 ?g (power_up silent) = (real_of_int 400 * 0.25, power_up silent)"
    using getTemperature_signed_14_bit [OF g, of myMAX31855 "power_up silent"] by blast
  then have "getTemperature myMAX31855 ?g (power_up silent) = (100, power_up silent)"
    by simp
  ultimately show ?thesis using f g by blast
qed

text \<open>
  C3. For every frame other than 7, \<open>detectThermocouple\<close> returns OK (0) when bit 16 is
  0, whatever bits 2, 1 and 0 are; when bit 16 is 1 it returns the first match of
  bit 2 (short to VCC, 1), bit 1 (short to GND, 2), bit 0 (not connected, 3), and
  unknown (4) when none of the three is set.
\<close>

theorem detectThermocouple_priority:
  assumes "frame \<noteq> MAX31855_FORCE_READ_DATA"
  shows "detectThermocouple dev frame w =
           ((if \<not> bit frame 16 then 0
             else if bit frame 2 then 1
             else if bit frame 1 then 2
             else if bit frame 0 then 3
             else 4), w)"
  using assms by (simp add: detectThermocouple_cached max31855_consts)

theorem detectThermocouple_priority_witness:
  "(0x10007 :: 32 word) \<noteq> MAX31855_FORCE_READ_DATA \<and>
   detectThermocouple myMAX31855 0x10007 (power_up silent) = (1, power_up silent) \<and>
   (0x10001 :: 32 word) \<noteq> MAX31855_FORCE_READ_DATA \<and>
   detectThermocouple myMAX31855 0x10001 (power_up silent) = (3, power_up silent) \<and>
   (0x6 :: 32 word) \<noteq> MAX31855_FORCE_READ_DATA \<and>
   detectThermocouple myMAX31855 0x6 (power_up silent) = (0, power_up silent)"
proof -
  have h: "(0x10007 :: 32 word) \<noteq> MAX31855_FORCE_READ_DATA"
    "(0x10001 :: 32 word) \<noteq> MAX31855_FORCE_READ_DATA"
    "(0x6 :: 32 word) \<noteq> MAX31855_FORCE_READ_DATA"
    by (simp_all add: MAX31855_FORCE_READ_DATA_def)
  show ?thesis
    using h detectThermocouple_priority [OF h(1), of myMAX31855 "power_up silent"]
      detectThermocouple_priority [OF h(2), of myMAX31855 "power_up silent"]
      detectThermocouple_priority [OF h(3), of myMAX31855 "power_up silent"]
    by simp
qed

text \<open>
  C4. For every frame other than 7, \<open>getTemperature\<close> returns the error value 2000
  whenever the fault classification is not OK or an identity bit (17 or 3) is set; and a
  frame with bit 17 or bit 3 set makes both \<open>getTemperature\<close> and
  \<open>getColdJunctionTemperature\<close> return 2000, whatever the other bits are.
\<close>

theorem temperature_error_sentinel:
  assumes "frame \<noteq> MAX31855_FORCE_READ_DATA"
  shows "(fst (detectThermocouple dev frame w) \<noteq> MAX31855_THERMOCOUPLE_OK
            \<or> bit frame 17 \<or> bit frame 3 \<longrightarrow>
          getTemperature dev frame w = (2000, w)) \<and>
         (bit frame 17 \<or> bit frame 3 \<longrightarrow>
          getTemperature dev frame w = (2000, w) \<and>
          getColdJunctionTemperature dev frame w = (2000, w))"
  using assms
  by (simp add: getTemperature_cached getColdJunctionTemperature_cached detectThermocouple_cached
      max31855_consts del: of_int_sint of_int_uint)

theorem temperature_error_sentinel_witness:
  "(0x06421908 :: 32 word) \<noteq> MAX31855_FORCE_READ_DATA \<and>
   bit (0x06421908 :: 32 word) 17 \<and> bit (0x06421908 :: 32 word) 3 \<and>
   getTemperature myMAX31855 0x06421908 (power_up silent) = (2000, power_up silent) \<and>
   getColdJunctionTemperature myMAX31855 0x06421908 (power_up silent) = (2000, power_up silent)"
proof -
  have h: "(0x06421908 :: 32 word) \<noteq> MAX31855_FORCE_READ_DATA"
    by (simp add: MAX31855_FORCE_READ_DATA_def)
  have b: "bit (0x06421908 :: 32 word) 17" "bit (0x06421908 :: 32 word) 3"
    by simp_all
  show ?thesis
    using h b temperature_error_sentinel [OF h, of myMAX31855 "power_up silent"] by simp
qed

text \<open>
  C5. The claim: for every frame other than 7, \<open>getColdJunctionTemperature\<close> returns
  2000 if and only if an identity bit (17 or 3) is set, and the fault bits play no part:
  with bit 16 and bit 2 set and the identity bits zero, \<open>getTemperature\<close> returns 2000
  while \<open>getColdJunctionTemperature\<close> returns the normally decoded cold-junction value.
  The code does ignore the fault bits, but the value it then returns is the unsigned
  count of bits 15..4: on the faulted frame \<open>0x0001D804\<close>, whose field holds \<open>-640\<close>
  counts (-40 degrees), \<open>getTemperature\<close> returns 2000 and
  \<open>getColdJunctionTemperature\<close> returns 216. This is the lost sign bit of C1, met on a
  frame with a thermocouple fault.
\<close>

theorem getColdJunctionTemperature_faulted_sign_bit_lost:
  "(0x1D804 :: 32 word) \<noteq> MAX31855_FORCE_READ_DATA \<and>
   bit (0x1D804 :: 32 word) 16 \<and> bit (0x1D804 :: 32 word) 2 \<and>
   \<not> bit (0x1D804 :: 32 word) 17 \<and> \<not> bit (0x1D804 :: 32 word) 3 \<and>
   getTemperature dev 0x1D804 w = (2000, w) \<and>
   getColdJunctionTemperature dev 0x1D804 w = (216, w) \<and>
   real_of_int (spec_cold_junction_count 0x1D804) * MAX31855_COLD_JUNCTION_RESOLUTION = - 40"
  by (simp add: getColdJunctionTemperature_cached getTemperature_cached
      spec_cold_junction_count_def max31855_consts)

text \<open>
  C6. For every frame other than 7, \<open>getChipID\<close> returns 31855 if and only if bits 17
  and 3 are both zero, and 0 otherwise; there is no third value.
\<close>

theorem getChipID_two_values:
  assumes "frame \<noteq> MAX31855_FORCE_READ_DATA"
  shows "getChipID dev frame w =
           ((if \<not> bit frame 17 \<and> \<not> bit frame 3 then 31855 else 0), w)"
  using assms by (simp add: getChipID_cached max31855_consts)

theorem getChipID_two_values_witness:
  "(0x06401910 :: 32 word) \<noteq> MAX31855_FORCE_READ_DATA \<and>
   getChipID myMAX31855 0x06401910 (power_up silent) = (31855, power_up silent) \<and>
   (0xFFFFFFFF :: 32 word) \<noteq> MAX31855_FORCE_READ_DATA \<and>
   getChipID myMAX31855 0xFFFFFFFF (power_up silent) = (0, power_up silent)"
proof -
  have h: "(0x06401910 :: 32 word) \<noteq> MAX31855_FORCE_READ_DATA"
    "(0xFFFFFFFF :: 32 word) \<noteq> MAX31855_FORCE_READ_DATA"
    by (simp_all add: MAX31855_FORCE_READ_DATA_def)
  show ?thesis
    using h getChipID_two_values [OF h(1), of myMAX31855 "power_up silent"]
      getChipID_two_values [OF h(2), of myMAX31855 "power_up silent"]
    by simp
qed

text \<open>
  C7. The claim: for every frame other than 7 that passes the identity check (and, for
  \<open>getTemperature\<close>, is classified OK), neither \<open>getTemperature\<close> nor
  \<open>getColdJunctionTemperature\<close> returns 2000. The 14-bit field reaches 8191 counts
  (2047.75 degrees), so the frame \<open>0x7D000000\<close>, with 8000 counts in bits 31..18 and
  every other bit zero, passes both checks and decodes to 2000.
\<close>

theorem sentinel_collision_at_8000:
  "(0x7D000000 :: 32 word) \<noteq> MAX31855_FORCE_READ_DATA \<and>
   \<not> bit (0x7D000000 :: 32 word) 17 \<and> \<not> bit (0x7D000000 :: 32 word) 3 \<and>
   fst (getChipID myMAX31855 0x7D000000 (power_up silent)) = MAX31855_ID \<and>
   fst (detectThermocouple myMAX31855 0x7D000000 (power_up silent)) = MAX31855_THERMOCOUPLE_OK \<and>
   fst (getTemperature myMAX31855 0x7D000000 (power_up silent)) = MAX31855_ERROR"
  by (simp add: getTemperature_cached detectThermocouple_cached getChipID_cached max31855_consts)

text \<open>
  C7, as the code has it: for every frame other than 7 that passes the identity check,
  \<open>getColdJunctionTemperature\<close> never returns 2000; and when the frame is also
  classified OK, \<open>getTemperature\<close> returns 2000 exactly when bits 31..18 hold the count
  8000, so every other reading differs from the error value.
\<close>

theorem sentinel_distinct_except_8000:
  assumes "frame \<noteq> MAX31855_FORCE_READ_DATA" and "\<not> bit frame 17" and "\<not> bit frame 3"
  shows "fst (getColdJunctionTemperature dev frame w) \<noteq> 2000 \<and>
         (fst (detectThermocouple dev frame w) = MAX31855_THERMOCOUPLE_OK \<longrightarrow>
            (fst (getTemperature dev frame w) = 2000 \<longleftrightarrow> spec_thermocouple_count frame = 8000))"
  using assms
  by (simp add: getColdJunctionTemperature_cached getTemperature_cached detectThermocouple_cached
      max31855_consts cj_count_ne thermo_value_error_iff spec_thermocouple_count_def
      del: of_int_sint of_int_uint)

theorem sentinel_distinct_except_8000_witness:
  "(0x55C01910 :: 32 word) \<noteq> MAX31855_FORCE_READ_DATA \<and>
   \<not> bit (0x55C01910 :: 32 word) 17 \<and> \<not> bit (0x55C01910 :: 32 word) 3 \<and>
   fst (detectThermocouple myMAX31855 0x55C01910 (power_up silent)) = MAX31855_THERMOCOUPLE_OK \<and>
   spec_thermocouple_count 0x55C01910 = 5488 \<and>
   fst (getColdJunctionTemperature myMAX31855 0x55C01910 (power_up silent)) \<noteq> 2000 \<and>
   fst (getTemperature myMAX31855 0x55C01910 (power_up silent)) \<noteq> 2000"
proof -
  have h: "(0x55C01910 :: 32 word) \<noteq> MAX31855_FORCE_READ_DATA"
    "\<not> bit (0x55C01910 :: 32 word) 17" "\<not> bit (0x55C01910 :: 32 word) 3"
    by (simp_all add: MAX31855_FORCE_READ_DATA_def)
  have ok: "fst (detectThermocouple myMAX31855 0x55C01910 (power_up silent))
              = MAX31855_THERMOCOUPLE_OK"
    by (simp add: detectThermocouple_cached h(1))
  have c: "spec_thermocouple_count 0x55C01910 = 5488"
    by (simp add: spec_thermocouple_count_def)
  show ?thesis
    using h ok c sentinel_distinct_except_8000 [OF h, of myMAX31855 "power_up silent"]
    by simp
qed

text \<open>
  C10. For every frame other than 7 the value of \<open>getColdJunctionTemperature\<close> is never
  negative: it is 2000 when an identity bit is set, and otherwise lies between 0 and
  255.9375 (an unsigned 12-bit count times 0.0625), whatever the sign bit 15 is.
\<close>

theorem getColdJunctionTemperature_never_negative:
  assumes "frame \<noteq> MAX31855_FORCE_READ_DATA"
  shows "(if bit frame 17 \<or> bit frame 3
          then fst (getColdJunctionTemperature dev frame w) = 2000
          else fst (getColdJunctionTemperature dev frame w)
                 = real_of_int (uint (ucast (drop_bit 4 frame) :: 12 word)) * 0.0625 \<and>
               0 \<le> fst (getColdJunctionTemperature dev frame w) \<and>
               fst (getColdJunctionTemperature dev frame w) \<le> 255.9375) \<and>
         0 \<le> fst (getColdJunctionTemperature dev frame w)"
  using assms cj_value_bounds [of "ucast (drop_bit 4 frame)"]
  by (simp add: getColdJunctionTemperature_cached max31855_consts del: of_int_sint of_int_uint)

text \<open>The largest count, sign bit set: \<open>0xFFF\<close> in bits 15..4.\<close>

theorem getColdJunctionTemperature_never_negative_witness:
  "(0x0000FFF0 :: 32 word) \<noteq> MAX31855_FORCE_READ_DATA \<and>
   \<not> bit (0x0000FFF0 :: 32 word) 17 \<and> \<not> bit (0x0000FFF0 :: 32 word) 3 \<and>
   bit (0x0000FFF0 :: 32 word) 15 \<and>
   0 \<le> fst (getColdJunctionTemperature myMAX31855 0x0000FFF0 (power_up silent)) \<and>
   fst (getColdJunctionTemperature myMAX31855 0x0000FFF0 (power_up silent)) \<le> 255.9375"
proof -
  have h: "(0x0000FFF0 :: 32 word) \<noteq> MAX31855_FORCE_READ_DATA"
    by (simp add: MAX31855_FORCE_READ_DATA_def)
  have b: "\<not> bit (0x0000FFF0 :: 32 word) 17" "\<not> bit (0x0000FFF0 :: 32 word) 3"
    "bit (0x0000FFF0 :: 32 word) 15"
    by simp_all
  show ?thesis
    using h b
      getColdJunctionTemperature_never_negative [OF h, of myMAX31855 "power_up silent"]
    by simp
qed

section \<open>Acquiring a frame\<close>

text \<open>
  C8. The two acquisition strategies of \<open>readRawData\<close> are interchangeable: whatever 32
  levels the chip presents on the data line, the hardware path (two 16-bit transfers,
  high word first) and the bit-banged path (32 times shift left by one and OR in the
  sampled level) return the same frame, whose bit \<open>31 - i\<close> is the \<open>i\<close>-th level sampled.
\<close>

theorem readRawData_strategies_agree:
  assumes "useHardwareSPI hw" and "\<not> useHardwareSPI sw"
  shows "fst (readRawData hw w) = fst (readRawData sw w) \<and>
         (\<forall>i<32. bit (fst (readRawData sw w)) (31 - i) = so_line w (clocks w + i)) \<and>
         (\<forall>i<32. bit (fst (readRawData hw w)) (31 - i) = so_line w (clocks w + i))"
proof -
  have "fst (readRawData hw w) = fst (readRawData sw w)"
    by (rule bit_word_eqI) (simp add: readRawData_bit)
  moreover have "bit (fst (readRawData d w)) (31 - i) = so_line w (clocks w + i)"
    if "i < 32" for i d
  proof -
    have "31 - i < 32" "31 - (31 - i) = i" using that by arith+
    then show ?thesis by (simp add: readRawData_bit)
  qed
  ultimately show ?thesis by simp
qed

text \<open>
  The two example objects on a line that goes high at the 29th clock period: both read
  the frame 7, and bit 1 of it is the level of period 30.
\<close>

theorem readRawData_strategies_agree_witness:
  "useHardwareSPI myMAX31855_01 \<and> \<not> useHardwareSPI myMAX31855 \<and>
   fst (readRawData myMAX31855_01 (power_up seven_then_high)) = 7 \<and>
   fst (readRawData myMAX31855 (power_up seven_then_high)) = 7 \<and>
   bit (fst (readRawData myMAX31855 (power_up seven_then_high))) (31 - 30)
     = so_line (power_up seven_then_high) (clocks (power_up seven_then_high) + 30) \<and>
   bit (fst (readRawData myMAX31855_01 (power_up seven_then_high))) (31 - 30)
     = so_line (power_up seven_then_high) (clocks (power_up seven_then_high) + 30)"
proof -
  note t = readRawData_strategies_agree [OF myMAX31855_01_hw myMAX31855_sw,
      of "power_up seven_then_high"]
  have e: "fst (readRawData myMAX31855_01 (power_up seven_then_high))
             = fst (readRawData myMAX31855 (power_up seven_then_high))"
    using t by (rule conjunct1)
  have s: "fst (readRawData myMAX31855 (power_up seven_then_high)) = 7"
    using first_frame_high [of myMAX31855] by (simp add: MAX31855_FORCE_READ_DATA_def)
  have "(30 :: nat) < 32" by simp
  with t have
    "bit (fst (readRawData myMAX31855 (power_up seven_then_high))) (31 - 30)
       = so_line (power_up seven_then_high) (clocks (power_up seven_then_high) + 30)"
    "bit (fst (readRawData myMAX31855_01 (power_up seven_then_high))) (31 - 30)
       = so_line (power_up seven_then_high) (clocks (power_up seven_then_high) + 30)"
    by blast+
  then show ?thesis
    using e s myMAX31855_01_hw myMAX31855_sw by simp
qed

section \<open>The argument that forces a read\<close>

text \<open>
  C9. The claim: each of \<open>detectThermocouple\<close>, \<open>getChipID\<close>, \<open>getTemperature\<close> and
  \<open>getColdJunctionTemperature\<close>, called with the argument 7, first calls
  \<open>readRawData\<close> and decodes the frame just acquired; called with any other value it
  leaves the wires alone and its result depends on that value only.
  The first half fails for the two temperature operations when the acquired frame is
  itself 7: they pass it on to \<open>detectThermocouple\<close> and \<open>getChipID\<close>, which take it for
  the forcing argument and read again. Two boards that both deliver the frame 7 first
  then give different results, decided by the frames read afterwards.
\<close>

theorem forced_read_result_not_of_first_frame:
  "fst (readRawData myMAX31855 (power_up seven_then_high)) = MAX31855_FORCE_READ_DATA \<and>
   fst (readRawData myMAX31855 (power_up seven_then_silent)) = MAX31855_FORCE_READ_DATA \<and>
   fst (getTemperature myMAX31855 MAX31855_FORCE_READ_DATA (power_up seven_then_high)) = 2000 \<and>
   fst (getTemperature myMAX31855 MAX31855_FORCE_READ_DATA (power_up seven_then_silent)) = 0 \<and>
   fst (getColdJunctionTemperature myMAX31855 MAX31855_FORCE_READ_DATA (power_up seven_then_high))
     = 2000 \<and>
   fst (getColdJunctionTemperature myMAX31855 MAX31855_FORCE_READ_DATA (power_up seven_then_silent))
     = 0 \<and>
   clocks (snd (readRawData myMAX31855 (power_up seven_then_silent))) = 32 \<and>
   clocks (snd (getTemperature myMAX31855 MAX31855_FORCE_READ_DATA (power_up seven_then_silent)))
     = 96"
proof -
  have high: "fst (getTemperature myMAX31855 MAX31855_FORCE_READ_DATA (power_up seven_then_high)) = 2000"
    by (simp add: getTemperature_forced first_frame_high detectThermocouple_forced
        later_frame_high readRawData_clocks readRawData_so_line power_up_sel
        MAX31855_THERMOCOUPLE_OK_def MAX31855_THERMOCOUPLE_SHORT_TO_VCC_def MAX31855_ERROR_def)
  have silent: "fst (getTemperature myMAX31855 MAX31855_FORCE_READ_DATA (power_up seven_then_silent)) = 0"
    by (simp add: getTemperature_forced first_frame_silent detectThermocouple_forced
        getChipID_forced later_frame_silent readRawData_clocks readRawData_so_line power_up_sel
        MAX31855_THERMOCOUPLE_OK_def MAX31855_ERROR_def)
       (simp add: MAX31855_FORCE_READ_DATA_def)
  have cj_high: "fst (getColdJunctionTemperature myMAX31855 MAX31855_FORCE_READ_DATA
      (power_up seven_then_high)) = 2000"
    by (simp add: getColdJunctionTemperature_forced first_frame_high getChipID_forced
        later_frame_high readRawData_clocks readRawData_so_line power_up_sel
        MAX31855_ID_def MAX31855_ERROR_def)
  have cj_silent: "fst (getColdJunctionTemperature myMAX31855 MAX31855_FORCE_READ_DATA
      (power_up seven_then_silent)) = 0"
    by (simp add: getColdJunctionTemperature_forced first_frame_silent getChipID_forced
        later_frame_silent readRawData_clocks readRawData_so_line power_up_sel
        MAX31855_ID_def MAX31855_ERROR_def)
       (simp add: MAX31855_FORCE_READ_DATA_def)
  have n: "clocks (snd (getTemperature myMAX31855 MAX31855_FORCE_READ_DATA
      (power_up seven_then_silent))) = 96"
    by (simp add: getTemperature_forced first_frame_silent detectThermocouple_forced
        getChipID_forced later_frame_silent readRawData_clocks readRawData_so_line power_up_sel
        MAX31855_THERMOCOUPLE_OK_def MAX31855_ERROR_def)
  show ?thesis
    using high silent cj_high cj_silent n
    by (simp add: first_frame_high first_frame_silent readRawData_clocks power_up_sel)
qed

text \<open>
  C9, as the code has it: called with 7, \<open>detectThermocouple\<close> and \<open>getChipID\<close> call
  \<open>readRawData\<close> once and decode the frame it returns (a frame 7 gives OK and the chip
  ID); \<open>getTemperature\<close> and \<open>getColdJunctionTemperature\<close> do the same whenever the
  acquired frame is not itself 7. Called with any other value, all four leave the wires
  as they are and return a result that depends on that value alone, not on the driver
  object or the wires.
\<close>

theorem forced_read_dispatch:
  "(let f = fst (readRawData dev w); w1 = snd (readRawData dev w)
    in detectThermocouple dev MAX31855_FORCE_READ_DATA w =
         (if f = MAX31855_FORCE_READ_DATA then (MAX31855_THERMOCOUPLE_OK, w1)
          else detectThermocouple dev f w1) \<and>
       getChipID dev MAX31855_FORCE_READ_DATA w =
         (if f = MAX31855_FORCE_READ_DATA then (MAX31855_ID, w1) else getChipID dev f w1) \<and>
       (f \<noteq> MAX31855_FORCE_READ_DATA \<longrightarrow>
          getTemperature dev MAX31855_FORCE_READ_DATA w = getTemperature dev f w1 \<and>
          getColdJunctionTemperature dev MAX31855_FORCE_READ_DATA w =
            getColdJunctionTemperature dev f w1)) \<and>
   (\<forall>v dev' w'. v \<noteq> MAX31855_FORCE_READ_DATA \<longrightarrow>
      detectThermocouple dev v w = (fst (detectThermocouple dev' v w'), w) \<and>
      getChipID dev v w = (fst (getChipID dev' v w'), w) \<and>
      getTemperature dev v w = (fst (getTemperature dev' v w'), w) \<and>
      getColdJunctionTemperature dev v w = (fst (getColdJunctionTemperature dev' v w'), w))"
proof -
  let ?f = "fst (readRawData dev w)" and ?w1 = "snd (readRawData dev w)"
  have d: "detectThermocouple dev MAX31855_FORCE_READ_DATA w =
      (if ?f = MAX31855_FORCE_READ_DATA then (MAX31855_THERMOCOUPLE_OK, ?w1)
       else detectThermocouple dev ?f ?w1)"
    by (simp add: detectThermocouple_forced detectThermocouple_cached Let_def sentinel_bits)
  have c: "getChipID dev MAX31855_FORCE_READ_DATA w =
      (if ?f = MAX31855_FORCE_READ_DATA then (MAX31855_ID, ?w1) else getChipID dev ?f ?w1)"
    by (simp add: getChipID_forced getChipID_cached Let_def sentinel_bits)
  have t: "getTemperature dev MAX31855_FORCE_READ_DATA w = getTemperature dev ?f ?w1"
    if "?f \<noteq> MAX31855_FORCE_READ_DATA"
    using that
    by (simp add: getTemperature_forced getTemperature_def [of dev ?f] Let_def split_beta
        del: of_int_sint)
  have j: "getColdJunctionTemperature dev MAX31855_FORCE_READ_DATA w =
      getColdJunctionTemperature dev ?f ?w1"
    if "?f \<noteq> MAX31855_FORCE_READ_DATA"
    using that
    by (simp add: getColdJunctionTemperature_forced getColdJunctionTemperature_def [of dev ?f]
        Let_def split_beta del: of_int_sint)
  have p: "detectThermocouple dev v w = (fst (detectThermocouple dev' v w'), w) \<and>
      getChipID dev v w = (fst (getChipID dev' v w'), w) \<and>
      getTemperature dev v w = (fst (getTemperature dev' v w'), w) \<and>
      getColdJunctionTemperature dev v w = (fst (getColdJunctionTemperature dev' v w'), w)"
    if "v \<noteq> MAX31855_FORCE_READ_DATA" for v dev' w'
    using that
    by (simp add: detectThermocouple_cached getChipID_cached getTemperature_cached
        getColdJunctionTemperature_cached del: of_int_sint of_int_uint)
  show ?thesis
    unfolding Let_def using d c t j p by blast
qed

text \<open>
  The bit-banged example object on a silent chip acquires the frame 0; and the frame
  \<open>0x06401910\<close> is decoded alike by both example objects on different boards.
\<close>

theorem forced_read_dispatch_witness:
  "fst (readRawData myMAX31855 (power_up silent)) \<noteq> MAX31855_FORCE_READ_DATA \<and>
   detectThermocouple myMAX31855 MAX31855_FORCE_READ_DATA (power_up silent) =
     detectThermocouple myMAX31855 (fst (readRawData myMAX31855 (power_up silent)))
       (snd (readRawData myMAX31855 (power_up silent))) \<and>
   getChipID myMAX31855 MAX31855_FORCE_READ_DATA (power_up silent) =
     getChipID myMAX31855 (fst (readRawData myMAX31855 (power_up silent)))
       (snd (readRawData myMAX31855 (power_up silent))) \<and>
   getTemperature myMAX31855 MAX31855_FORCE_READ_DATA (power_up silent) =
     getTemperature myMAX31855 (fst (readRawData myMAX31855 (power_up silent)))
       (snd (readRawData myMAX31855 (power_up silent))) \<and>
   getColdJunctionTemperature myMAX31855 MAX31855_FORCE_READ_DATA (power_up silent) =
     getColdJunctionTemperature myMAX31855 (fst (readRawData myMAX31855 (power_up silent)))
       (snd (readRawData myMAX31855 (power_up silent))) \<and>
   (0x06401910 :: 32 word) \<noteq> MAX31855_FORCE_READ_DATA \<and>
   getTemperature myMAX31855 0x06401910 (power_up silent) =
     (fst (getTemperature myMAX31855_01 0x06401910 (power_up seven_then_high)), power_up silent) \<and>
   getColdJunctionTemperature myMAX31855 0x06401910 (power_up silent) =
     (fst (getColdJunctionTemperature myMAX31855_01 0x06401910 (power_up seven_then_high)),
      power_up silent)"
proof -
  have h: "fst (readRawData myMAX31855 (power_up silent)) \<noteq> MAX31855_FORCE_READ_DATA"
    by (simp add: first_frame_of_silent MAX31855_FORCE_READ_DATA_def)
  have v: "(0x06401910 :: 32 word) \<noteq> MAX31855_FORCE_READ_DATA"
    by (simp add: MAX31855_FORCE_READ_DATA_def)
  show ?thesis
    using h v forced_read_dispatch [of myMAX31855 "power_up silent"]
    unfolding Let_def by presburger
qed

end
